theory Spec2Isabelle
  imports Main
begin

section \<open>The configuration header \<open>sqlite3/sqlite_cfg.h\<close>\<close>

text \<open>
  The repository slice is one C header that is handed to the preprocessor before the
  embedded database engine is compiled. It has no functions: what it "does" is the set
  of macro definitions a C preprocessor records after reading it. The embedding is
  therefore the text of the file, character for character, together with the reading a
  preprocessor gives to each line (blank, \<open>//\<close> comment, or \<open>#define\<close> directive).
\<close>

subsection \<open>The text of the file\<close>

definition newline :: char where
  "newline = CHR 0x0A"

text \<open>Lines are joined by a newline character; the last line carries none.\<close>

fun join_lines :: "string list \<Rightarrow> string" where
  "join_lines [] = []"
| "join_lines [l] = l"
| "join_lines (l # ls) = l @ newline # join_lines ls"

text \<open>
  The file as it is in the repository: 29 newline characters, the last line
  (\<open>#define SQLITE_UNTESTABLE\<close>) is not terminated by one.
\<close>

definition sqlite_cfg_h :: string where
  "sqlite_cfg_h = join_lines
    [ ''// Platform Configuration'',
      '''',
      ''#define SQLITE_OS_OTHER 1'',
      ''#define SQLITE_BYTEORDER 1234'',
      '''',
      ''#define HAVE_ISNAN 1'',
      ''#define HAVE_USLEEP 1'',
      ''#define HAVE_MALLOC_USABLE_SIZE 1'',
      '''',
      ''// Recommended Options'',
      '''',
      ''#define SQLITE_DQS 0'',
      ''#define SQLITE_THREADSAFE 0'',
      ''#define SQLITE_DEFAULT_MEMSTATUS 0'',
      ''#define SQLITE_DEFAULT_WAL_SYNCHRONOUS 1'',
      ''#define SQLITE_LIKE_DOESNT_MATCH_BLOBS'',
      ''#define SQLITE_MAX_EXPR_DEPTH 0'',
      ''#define SQLITE_OMIT_DECLTYPE'',
      ''#define SQLITE_OMIT_DEPRECATED'',
      ''#define SQLITE_OMIT_PROGRESS_CALLBACK'',
      ''#define SQLITE_OMIT_SHARED_CACHE'',
      ''#define SQLITE_OMIT_AUTOINIT'',
      ''#define SQLITE_USE_ALLOCA'',
      '''',
      ''// Need this to access WAL databases without the use of shared memory.'',
      ''#define SQLITE_DEFAULT_LOCKING_MODE 1'',
      ''// Go uses UTF-8 everywhere.'',
      ''#define SQLITE_OMIT_UTF16'',
      ''// Remove some testing code.'',
      ''#define SQLITE_UNTESTABLE'' ]"

subsection \<open>Reading the file as the preprocessor does\<close>

text \<open>
  Splitting a text at the characters that satisfy \<open>p\<close>; the pieces between two
  separators may be empty. \<open>acc\<close> holds the current piece, reversed.
\<close>

fun split_on :: "(char \<Rightarrow> bool) \<Rightarrow> string \<Rightarrow> string \<Rightarrow> string list" where
  "split_on p acc [] = [rev acc]"
| "split_on p acc (c # cs) =
     (if p c then rev acc # split_on p [] cs else split_on p (c # acc) cs)"

definition split_lines :: "string \<Rightarrow> string list" where
  "split_lines s = split_on (\<lambda>c. c = newline) [] s"

definition is_blank_char :: "char \<Rightarrow> bool" where
  "is_blank_char c = (c = CHR '' '' \<or> c = CHR 0x09)"

definition tokens :: "string \<Rightarrow> string list" where
  "tokens s = filter (\<lambda>t. t \<noteq> []) (split_on is_blank_char [] s)"

text \<open>A \<open>//\<close> comment runs to the end of its line.\<close>

fun strip_comment :: "string \<Rightarrow> string" where
  "strip_comment (a # b # cs) =
     (if a = CHR ''/'' \<and> b = CHR ''/'' then [] else a # strip_comment (b # cs))"
| "strip_comment cs = cs"

definition is_digit :: "char \<Rightarrow> bool" where
  "is_digit c = (48 \<le> (of_char c :: nat) \<and> (of_char c :: nat) \<le> 57)"

definition is_ident_start :: "char \<Rightarrow> bool" where
  "is_ident_start c =
     (let k = (of_char c :: nat) in (65 \<le> k \<and> k \<le> 90) \<or> (97 \<le> k \<and> k \<le> 122) \<or> k = 95)"

definition is_identifier :: "string \<Rightarrow> bool" where
  "is_identifier s =
     (case s of [] \<Rightarrow> False
      | c # cs \<Rightarrow> is_ident_start c \<and> list_all (\<lambda>d. is_ident_start d \<or> is_digit d) cs)"

text \<open>
  What one line of the header is. A directive \<open>#define NAME tokens\<close> keeps the macro
  name and its replacement list (the tokens after the name, possibly none). Anything
  the header could hold besides these (another directive, a declaration, a
  function-like macro) is \<open>Other\<close>.
\<close>

datatype line = Blank | Comment string | Define string "string list" | Other string

definition parse_line :: "string \<Rightarrow> line" where
  "parse_line l =
     (case tokens (strip_comment l) of
        [] \<Rightarrow> (if tokens l = [] then Blank else Comment l)
      | t # rest \<Rightarrow>
          (if t = ''#define'' then
             (case rest of
                [] \<Rightarrow> Other l
              | n # repl \<Rightarrow> if is_identifier n then Define n repl else Other l)
           else Other l))"

definition cfg_lines :: "line list" where
  "cfg_lines = map parse_line (split_lines sqlite_cfg_h)"

subsection \<open>The flag mapping\<close>

fun define_entries :: "line list \<Rightarrow> (string \<times> string list) list" where
  "define_entries [] = []"
| "define_entries (Define n repl # ls) = (n, repl) # define_entries ls"
| "define_entries (_ # ls) = define_entries ls"

definition flag_entries :: "(string \<times> string list) list" where
  "flag_entries = define_entries cfg_lines"

text \<open>The macro table: name to replacement list.\<close>

definition flags :: "string \<rightharpoonup> string list" where
  "flags = map_of flag_entries"

text \<open>
  The shape of a replacement list: empty (the macro is only present), one decimal
  integer literal, or one identifier (a named mode). Every other replacement list
  (several tokens, an expression, a string literal) has no shape here.
\<close>

datatype flag_value = Present | IntVal int | ModeVal string

definition digit_val :: "char \<Rightarrow> int" where
  "digit_val c = int (of_char c) - 48"

definition decimal :: "string \<Rightarrow> int" where
  "decimal s = foldl (\<lambda>a c. 10 * a + digit_val c) 0 s"

definition value_shape :: "string list \<Rightarrow> flag_value option" where
  "value_shape repl =
     (case repl of
        [] \<Rightarrow> Some Present
      | [t] \<Rightarrow>
          (if t \<noteq> [] \<and> list_all is_digit t then Some (IntVal (decimal t))
           else if is_identifier t then Some (ModeVal t)
           else None)
      | _ \<Rightarrow> None)"

definition flag_value_of :: "string \<Rightarrow> flag_value option" where
  "flag_value_of n = (case flags n of None \<Rightarrow> None | Some repl \<Rightarrow> value_shape repl)"

subsection \<open>Kinds of lines\<close>

definition is_blank :: "line \<Rightarrow> bool" where
  "is_blank l = (case l of Blank \<Rightarrow> True | _ \<Rightarrow> False)"

definition is_comment :: "line \<Rightarrow> bool" where
  "is_comment l = (case l of Comment _ \<Rightarrow> True | _ \<Rightarrow> False)"

definition is_define :: "line \<Rightarrow> bool" where
  "is_define l = (case l of Define _ _ \<Rightarrow> True | _ \<Rightarrow> False)"

definition is_other :: "line \<Rightarrow> bool" where
  "is_other l = (case l of Other _ \<Rightarrow> True | _ \<Rightarrow> False)"

text \<open>A definition of the form \<open>#define NAME VALUE\<close>: the replacement list is not empty.\<close>

definition is_valued_define :: "line \<Rightarrow> bool" where
  "is_valued_define l = (case l of Define _ (_ # _) \<Rightarrow> True | _ \<Rightarrow> False)"

subsection \<open>Blocks of the header\<close>

text \<open>
  The header is laid out in blocks, each opened by a comment line: the block of a
  heading is every line after that comment up to the next comment line.
\<close>

fun block_after :: "string \<Rightarrow> line list \<Rightarrow> line list" where
  "block_after h [] = []"
| "block_after h (l # ls) =
     (if l = Comment h then takeWhile (\<lambda>x. \<not> is_comment x) ls else block_after h ls)"

definition recommended_options :: "(string \<times> string list) list" where
  "recommended_options = define_entries (block_after ''// Recommended Options'' cfg_lines)"

text \<open>The entries whose replacement list is an integer literal, with that integer.\<close>

fun int_flags :: "(string \<times> string list) list \<Rightarrow> (string \<times> int) list" where
  "int_flags [] = []"
| "int_flags ((n, repl) # es) =
     (case value_shape repl of
        Some (IntVal i) \<Rightarrow> (n, i) # int_flags es
      | _ \<Rightarrow> int_flags es)"

subsection \<open>Entries that name the journal mode\<close>

text \<open>\<open>contains w s\<close>: the text \<open>w\<close> occurs in \<open>s\<close>.\<close>

fun contains :: "string \<Rightarrow> string \<Rightarrow> bool" where
  "contains w [] = (w = [])"
| "contains w (c # cs) = (take (length w) (c # cs) = w \<or> contains w cs)"

text \<open>
  An entry that sets the engine's default journal mode to WAL has to say so: its macro
  name names the journal, or its replacement list gives WAL as the value. This is the
  weakest such test; an entry that fails it sets no journal mode.
\<close>

definition mentions_journal_mode :: "string \<times> string list \<Rightarrow> bool" where
  "mentions_journal_mode e =
     (contains ''JOURNAL'' (fst e) \<or> list_ex (contains ''WAL'') (snd e))"

section \<open>Evaluating the header\<close>

lemma split_lines_sqlite_cfg_h:
  "split_lines sqlite_cfg_h =
    [ ''// Platform Configuration'',
      '''',
      ''#define SQLITE_OS_OTHER 1'',
      ''#define SQLITE_BYTEORDER 1234'',
      '''',
      ''#define HAVE_ISNAN 1'',
      ''#define HAVE_USLEEP 1'',
      ''#define HAVE_MALLOC_USABLE_SIZE 1'',
      '''',
      ''// Recommended Options'',
      '''',
      ''#define SQLITE_DQS 0'',
      ''#define SQLITE_THREADSAFE 0'',
      ''#define SQLITE_DEFAULT_MEMSTATUS 0'',
      ''#define SQLITE_DEFAULT_WAL_SYNCHRONOUS 1'',
      ''#define SQLITE_LIKE_DOESNT_MATCH_BLOBS'',
      ''#define SQLITE_MAX_EXPR_DEPTH 0'',
      ''#define SQLITE_OMIT_DECLTYPE'',
      ''#define SQLITE_OMIT_DEPRECATED'',
      ''#define SQLITE_OMIT_PROGRESS_CALLBACK'',
      ''#define SQLITE_OMIT_SHARED_CACHE'',
      ''#define SQLITE_OMIT_AUTOINIT'',
      ''#define SQLITE_USE_ALLOCA'',
      '''',
      ''// Need this to access WAL databases without the use of shared memory.'',
      ''#define SQLITE_DEFAULT_LOCKING_MODE 1'',
      ''// Go uses UTF-8 everywhere.'',
      ''#define SQLITE_OMIT_UTF16'',
      ''// Remove some testing code.'',
      ''#define SQLITE_UNTESTABLE'' ]"
  by code_simp

lemma cfg_lines_eq:
  "cfg_lines =
    [ Comment ''// Platform Configuration'',
      Blank,
      Define ''SQLITE_OS_OTHER'' [''1''],
      Define ''SQLITE_BYTEORDER'' [''1234''],
      Blank,
      Define ''HAVE_ISNAN'' [''1''],
      Define ''HAVE_USLEEP'' [''1''],
      Define ''HAVE_MALLOC_USABLE_SIZE'' [''1''],
      Blank,
      Comment ''// Recommended Options'',
      Blank,
      Define ''SQLITE_DQS'' [''0''],
      Define ''SQLITE_THREADSAFE'' [''0''],
      Define ''SQLITE_DEFAULT_MEMSTATUS'' [''0''],
      Define ''SQLITE_DEFAULT_WAL_SYNCHRONOUS'' [''1''],
      Define ''SQLITE_LIKE_DOESNT_MATCH_BLOBS'' [],
      Define ''SQLITE_MAX_EXPR_DEPTH'' [''0''],
      Define ''SQLITE_OMIT_DECLTYPE'' [],
      Define ''SQLITE_OMIT_DEPRECATED'' [],
      Define ''SQLITE_OMIT_PROGRESS_CALLBACK'' [],
      Define ''SQLITE_OMIT_SHARED_CACHE'' [],
      Define ''SQLITE_OMIT_AUTOINIT'' [],
      Define ''SQLITE_USE_ALLOCA'' [],
      Blank,
      Comment ''// Need this to access WAL databases without the use of shared memory.'',
      Define ''SQLITE_DEFAULT_LOCKING_MODE'' [''1''],
      Comment ''// Go uses UTF-8 everywhere.'',
      Define ''SQLITE_OMIT_UTF16'' [],
      Comment ''// Remove some testing code.'',
      Define ''SQLITE_UNTESTABLE'' [] ]"
  by code_simp

lemma flag_entries_eq:
  "flag_entries =
    [ (''SQLITE_OS_OTHER'', [''1'']),
      (''SQLITE_BYTEORDER'', [''1234'']),
      (''HAVE_ISNAN'', [''1'']),
      (''HAVE_USLEEP'', [''1'']),
      (''HAVE_MALLOC_USABLE_SIZE'', [''1'']),
      (''SQLITE_DQS'', [''0'']),
      (''SQLITE_THREADSAFE'', [''0'']),
      (''SQLITE_DEFAULT_MEMSTATUS'', [''0'']),
      (''SQLITE_DEFAULT_WAL_SYNCHRONOUS'', [''1'']),
      (''SQLITE_LIKE_DOESNT_MATCH_BLOBS'', []),
      (''SQLITE_MAX_EXPR_DEPTH'', [''0'']),
      (''SQLITE_OMIT_DECLTYPE'', []),
      (''SQLITE_OMIT_DEPRECATED'', []),
      (''SQLITE_OMIT_PROGRESS_CALLBACK'', []),
      (''SQLITE_OMIT_SHARED_CACHE'', []),
      (''SQLITE_OMIT_AUTOINIT'', []),
      (''SQLITE_USE_ALLOCA'', []),
      (''SQLITE_DEFAULT_LOCKING_MODE'', [''1'']),
      (''SQLITE_OMIT_UTF16'', []),
      (''SQLITE_UNTESTABLE'', []) ]"
  unfolding flag_entries_def cfg_lines_eq by simp

lemma no_other_lines: "filter is_other cfg_lines = []"
  unfolding cfg_lines_eq by (simp add: is_other_def)

lemma distinct_flag_names: "distinct (map fst flag_entries)"
  unfolding flag_entries_eq by simp

lemma recommended_options_eq:
  "recommended_options =
    [ (''SQLITE_DQS'', [''0'']),
      (''SQLITE_THREADSAFE'', [''0'']),
      (''SQLITE_DEFAULT_MEMSTATUS'', [''0'']),
      (''SQLITE_DEFAULT_WAL_SYNCHRONOUS'', [''1'']),
      (''SQLITE_LIKE_DOESNT_MATCH_BLOBS'', []),
      (''SQLITE_MAX_EXPR_DEPTH'', [''0'']),
      (''SQLITE_OMIT_DECLTYPE'', []),
      (''SQLITE_OMIT_DEPRECATED'', []),
      (''SQLITE_OMIT_PROGRESS_CALLBACK'', []),
      (''SQLITE_OMIT_SHARED_CACHE'', []),
      (''SQLITE_OMIT_AUTOINIT'', []),
      (''SQLITE_USE_ALLOCA'', []) ]"
  unfolding recommended_options_def cfg_lines_eq by (simp add: is_comment_def)

lemmas shape_defs =
  value_shape_def is_digit_def is_identifier_def is_ident_start_def decimal_def digit_val_def

lemma value_shape_0: "value_shape [''0''] = Some (IntVal 0)"
  by (simp add: shape_defs)

lemma value_shape_1: "value_shape [''1''] = Some (IntVal 1)"
  by (simp add: shape_defs)

lemma value_shape_1234: "value_shape [''1234''] = Some (IntVal 1234)"
  by (simp add: shape_defs)

lemma value_shape_Nil: "value_shape [] = Some Present"
  by (simp add: value_shape_def)

lemmas flag_value_simps =
  flag_value_of_def flags_def flag_entries_eq
  value_shape_0 value_shape_1 value_shape_1234 value_shape_Nil

section \<open>The claims\<close>

text \<open>
  C4. The flag mapping disables UTF-16 support and shared-cache mode: both
  \<open>SQLITE_OMIT_UTF16\<close> and \<open>SQLITE_OMIT_SHARED_CACHE\<close> are in the mapping, each with an
  empty replacement list, that is as presence-only flags with no value.
\<close>

theorem omit_utf16_and_shared_cache_present:
  "flags ''SQLITE_OMIT_UTF16'' = Some [] \<and>
   flags ''SQLITE_OMIT_SHARED_CACHE'' = Some [] \<and>
   flag_value_of ''SQLITE_OMIT_UTF16'' = Some Present \<and>
   flag_value_of ''SQLITE_OMIT_SHARED_CACHE'' = Some Present"
  by (simp add: flag_value_simps)

text \<open>
  C5. The flag mapping declares the platform capabilities \<open>isnan\<close>, \<open>usleep\<close> and
  \<open>malloc_usable_size\<close> as available: \<open>HAVE_ISNAN\<close>, \<open>HAVE_USLEEP\<close> and
  \<open>HAVE_MALLOC_USABLE_SIZE\<close> are each defined with the integer value 1.
\<close>

theorem have_capabilities_are_1:
  "flag_value_of ''HAVE_ISNAN'' = Some (IntVal 1) \<and>
   flag_value_of ''HAVE_USLEEP'' = Some (IntVal 1) \<and>
   flag_value_of ''HAVE_MALLOC_USABLE_SIZE'' = Some (IntVal 1)"
  by (simp add: flag_value_simps)

text \<open>
  C6. The flag mapping sets a default locking mode: \<open>SQLITE_DEFAULT_LOCKING_MODE\<close> is
  defined with the integer value 1. The definition is line 26 of the header, and the
  line before it is the comment that gives its purpose (access to WAL databases without
  shared memory).
\<close>

theorem default_locking_mode_is_1:
  "flag_value_of ''SQLITE_DEFAULT_LOCKING_MODE'' = Some (IntVal 1) \<and>
   cfg_lines ! 25 = Define ''SQLITE_DEFAULT_LOCKING_MODE'' [''1''] \<and>
   cfg_lines ! 24 =
     Comment ''// Need this to access WAL databases without the use of shared memory.''"
proof -
  have "flag_value_of ''SQLITE_DEFAULT_LOCKING_MODE'' = Some (IntVal 1)"
    by (simp add: flag_value_simps)
  moreover have "cfg_lines ! 25 = Define ''SQLITE_DEFAULT_LOCKING_MODE'' [''1'']"
    unfolding cfg_lines_eq by simp
  moreover have "cfg_lines ! 24 =
      Comment ''// Need this to access WAL databases without the use of shared memory.''"
    unfolding cfg_lines_eq by simp
  ultimately show ?thesis by blast
qed

text \<open>
  C9. The configuration declares the target platform as a non-standard OS with
  little-endian byte order: \<open>SQLITE_OS_OTHER\<close> is defined with value 1 and
  \<open>SQLITE_BYTEORDER\<close> with value 1234.
\<close>

theorem os_other_and_byteorder:
  "flag_value_of ''SQLITE_OS_OTHER'' = Some (IntVal 1) \<and>
   flag_value_of ''SQLITE_BYTEORDER'' = Some (IntVal 1234)"
  by (simp add: flag_value_simps)

text \<open>
  C8. Every flag name in the file is defined exactly once: no name appears in two
  \<open>#define\<close> lines. So the list of definitions is a function from name to replacement
  list: the macro table holds exactly the pairs of the list, and no rule is needed to
  choose between two definitions of one name.
\<close>

theorem flag_names_defined_once:
  "distinct (map fst flag_entries) \<and>
   length flag_entries = length (filter is_define cfg_lines) \<and>
   (\<forall>n repl. (flags n = Some repl) = ((n, repl) \<in> set flag_entries))"
proof -
  have "length flag_entries = length (filter is_define cfg_lines)"
    unfolding flag_entries_eq unfolding cfg_lines_eq by (simp add: is_define_def)
  moreover have "\<forall>n repl. (flags n = Some repl) = ((n, repl) \<in> set flag_entries)"
    unfolding flags_def using distinct_flag_names by simp
  ultimately show ?thesis using distinct_flag_names by blast
qed

text \<open>
  C7. For every entry of the flag mapping, its value is one of exactly three shapes: an
  integer value, a string/enumerated mode value, or absent (the presence-only marker);
  no entry has a replacement list of any other shape.
\<close>

theorem flag_value_shapes:
  assumes "flags n = Some repl"
  shows "(\<exists>i. value_shape repl = Some (IntVal i)) \<or>
         (\<exists>m. value_shape repl = Some (ModeVal m)) \<or>
         value_shape repl = Some Present"
proof -
  from assms have "(n, repl) \<in> set flag_entries"
    unfolding flags_def by (rule map_of_SomeD)
  then have "repl \<in> {[''0''], [''1''], [''1234''], []}"
    unfolding flag_entries_eq by auto
  then show ?thesis
    using value_shape_0 value_shape_1 value_shape_1234 value_shape_Nil by auto
qed

theorem flag_value_shapes_witness:
  "flags ''SQLITE_BYTEORDER'' = Some [''1234''] \<and>
   value_shape [''1234''] = Some (IntVal 1234)"
proof -
  have h: "flags ''SQLITE_BYTEORDER'' = Some [''1234'']"
    by (simp add: flags_def flag_entries_eq)
  show ?thesis
    using h flag_value_shapes [OF h] by (simp add: value_shape_1234)
qed

text \<open>
  C10. Every integer-valued flag in the "Recommended Options" block other than
  \<open>SQLITE_DEFAULT_WAL_SYNCHRONOUS\<close> is set to 0: these flags are \<open>SQLITE_DQS\<close>,
  \<open>SQLITE_THREADSAFE\<close>, \<open>SQLITE_DEFAULT_MEMSTATUS\<close> and \<open>SQLITE_MAX_EXPR_DEPTH\<close>, and each
  has the value 0.
\<close>

theorem recommended_int_flags_are_0:
  "filter (\<lambda>e. fst e \<noteq> ''SQLITE_DEFAULT_WAL_SYNCHRONOUS'') (int_flags recommended_options) =
     [ (''SQLITE_DQS'', 0), (''SQLITE_THREADSAFE'', 0),
       (''SQLITE_DEFAULT_MEMSTATUS'', 0), (''SQLITE_MAX_EXPR_DEPTH'', 0) ] \<and>
   list_all (\<lambda>e. snd e = 0)
     (filter (\<lambda>e. fst e \<noteq> ''SQLITE_DEFAULT_WAL_SYNCHRONOUS'') (int_flags recommended_options))"
  unfolding recommended_options_eq
  by (simp add: value_shape_0 value_shape_1 value_shape_Nil)

text \<open>
  C1, as stated: the flag mapping contains an entry that sets the engine's default
  journal mode to WAL, and \<open>SQLITE_DEFAULT_WAL_SYNCHRONOUS\<close> is defined with the integer
  value 1. The first half fails: no entry names the journal or gives WAL as its value.
\<close>

theorem journal_mode_wal_entry_counterexample:
  "\<not> (list_ex mentions_journal_mode flag_entries \<and>
      flag_value_of ''SQLITE_DEFAULT_WAL_SYNCHRONOUS'' = Some (IntVal 1))"
  unfolding flag_entries_eq by (simp add: mentions_journal_mode_def)

text \<open>
  C1, amended: \<open>SQLITE_DEFAULT_WAL_SYNCHRONOUS\<close> is defined with the integer value 1, and
  the flag mapping has no entry that sets a default journal mode (no macro name names
  the journal, no replacement list gives WAL).
\<close>

theorem wal_synchronous_is_1_no_journal_mode:
  "flag_value_of ''SQLITE_DEFAULT_WAL_SYNCHRONOUS'' = Some (IntVal 1) \<and>
   filter mentions_journal_mode flag_entries = []"
proof -
  have "flag_value_of ''SQLITE_DEFAULT_WAL_SYNCHRONOUS'' = Some (IntVal 1)"
    by (simp add: flag_value_simps)
  moreover have "filter mentions_journal_mode flag_entries = []"
    unfolding flag_entries_eq by (simp add: mentions_journal_mode_def)
  ultimately show ?thesis by blast
qed

text \<open>
  C2, as stated: the file consists of exactly 29 lines, every one of which is a
  definition of the form \<open>#define NAME VALUE\<close>. It fails: the file has comment lines,
  blank lines and definitions without a value (and its 29 newline characters separate
  30 lines).
\<close>

theorem all_lines_valued_defines_counterexample:
  "\<not> (length (split_lines sqlite_cfg_h) = 29 \<and> list_all is_valued_define cfg_lines)"
  unfolding cfg_lines_eq by (simp add: is_valued_define_def)

text \<open>
  C2, amended: the file has 29 newline characters, which separate 30 lines; the last
  character of the file is not a newline, so the last line, \<open>#define SQLITE_UNTESTABLE\<close>,
  is not terminated. Each line is blank (the 5 lines 2, 5, 9, 11 and 24), a \<open>//\<close>
  comment (the 5 lines 1, 10, 25, 27 and 29) or a definition \<open>#define NAME\<close> with an
  optional value (20 lines, 11 of them with a value and 9 without); no line is anything
  else. (Positions below count from 0.)
\<close>

theorem header_line_kinds:
  "count_list sqlite_cfg_h newline = 29 \<and>
   length (split_lines sqlite_cfg_h) = 30 \<and>
   last sqlite_cfg_h \<noteq> newline \<and>
   last (split_lines sqlite_cfg_h) = ''#define SQLITE_UNTESTABLE'' \<and>
   last cfg_lines = Define ''SQLITE_UNTESTABLE'' [] \<and>
   filter (\<lambda>i. is_blank (cfg_lines ! i)) [0..<length cfg_lines] = [1, 4, 8, 10, 23] \<and>
   filter (\<lambda>i. is_comment (cfg_lines ! i)) [0..<length cfg_lines] = [0, 9, 24, 26, 28] \<and>
   length (filter is_blank cfg_lines) = 5 \<and>
   length (filter is_comment cfg_lines) = 5 \<and>
   length (filter is_define cfg_lines) = 20 \<and>
   length (filter is_valued_define cfg_lines) = 11 \<and>
   filter is_other cfg_lines = []"
proof -
  have "count_list sqlite_cfg_h newline = 29"
    by code_simp
  moreover have "length (split_lines sqlite_cfg_h) = 30"
    unfolding split_lines_sqlite_cfg_h by simp
  moreover have "last sqlite_cfg_h \<noteq> newline"
    by code_simp
  moreover have "last (split_lines sqlite_cfg_h) = ''#define SQLITE_UNTESTABLE''"
    unfolding split_lines_sqlite_cfg_h by simp
  moreover have "last cfg_lines = Define ''SQLITE_UNTESTABLE'' []"
    unfolding cfg_lines_eq by simp
  moreover have
    "filter (\<lambda>i. is_blank (cfg_lines ! i)) [0..<length cfg_lines] = [1, 4, 8, 10, 23]"
    by code_simp
  moreover have
    "filter (\<lambda>i. is_comment (cfg_lines ! i)) [0..<length cfg_lines] = [0, 9, 24, 26, 28]"
    by code_simp
  moreover have "length (filter is_blank cfg_lines) = 5"
    unfolding cfg_lines_eq by (simp add: is_blank_def)
  moreover have "length (filter is_comment cfg_lines) = 5"
    unfolding cfg_lines_eq by (simp add: is_comment_def)
  moreover have "length (filter is_define cfg_lines) = 20"
    unfolding cfg_lines_eq by (simp add: is_define_def)
  moreover have "length (filter is_valued_define cfg_lines) = 11"
    unfolding cfg_lines_eq by (simp add: is_valued_define_def)
  ultimately show ?thesis using no_other_lines by blast
qed

end
